theory Spec2Isabelle
  imports Main "HOL-Library.Word"
begin

section \<open>Python values\<close>

text \<open>
  The values that flow through \<^verbatim>\<open>jsonrpchttp.py\<close>: what \<^verbatim>\<open>json.loads\<close> produces
  (None, bool, int, float, str, list, dict with string keys) and, for what a handler may
  return, tuples.  A float is kept as the bit pattern of its double: the program never
  looks inside one.  A dict is an association list read with \<open>map_of\<close>.
\<close>

type_synonym bytes = "8 word list"

datatype pyval =
    PNone
  | PBool bool
  | PInt int
  | PFloat "64 word"
  | PStr string
  | PList "pyval list"
  | PDict "(string \<times> pyval) list"
  | PTuple "pyval list"

datatype pytype = NoneType | TBool | TInt | TFloat | TStr | TList | TDict | TTuple

fun type_of :: "pyval \<Rightarrow> pytype" where
  "type_of PNone = NoneType"
| "type_of (PBool b) = TBool"
| "type_of (PInt i) = TInt"
| "type_of (PFloat f) = TFloat"
| "type_of (PStr s) = TStr"
| "type_of (PList xs) = TList"
| "type_of (PDict kvs) = TDict"
| "type_of (PTuple xs) = TTuple"

text \<open>Exceptions.  \<open>UnicodeDecodeError\<close> and \<open>JSONDecodeError\<close> are subclasses of
  \<open>ValueError\<close>; \<open>RecursionError\<close> is not; \<open>OtherError\<close> stands for whatever else
  a handler or a library function may raise.\<close>

datatype exn =
    AttributeError string
  | TypeError string
  | IndexError
  | KeyError string
  | ValueError string
  | UnicodeDecodeError
  | JSONDecodeError
  | RecursionError
  | OtherError string

fun is_ValueError :: "exn \<Rightarrow> bool" where
  "is_ValueError (ValueError m) = True"
| "is_ValueError UnicodeDecodeError = True"
| "is_ValueError JSONDecodeError = True"
| "is_ValueError e = False"

text \<open>Sequence indexing \<^verbatim>\<open>xs[i]\<close>: a negative index counts from the end, an index out of
  range raises.\<close>

definition seq_getitem :: "'a list \<Rightarrow> int \<Rightarrow> exn + 'a" where
  "seq_getitem xs i =
     (if 0 \<le> i \<and> i < int (length xs) then Inr (xs ! nat i)
      else if i < 0 \<and> - int (length xs) \<le> i then Inr (xs ! nat (int (length xs) + i))
      else Inl IndexError)"

fun getitem :: "pyval \<Rightarrow> int \<Rightarrow> exn + pyval" where
  "getitem (PTuple xs) i = seq_getitem xs i"
| "getitem (PList xs) i = seq_getitem xs i"
| "getitem (PStr s) i = (case seq_getitem s i of Inl e \<Rightarrow> Inl e | Inr c \<Rightarrow> Inr (PStr [c]))"
| "getitem (PDict kvs) i = Inl (KeyError ''int'')"
| "getitem v i = Inl (TypeError ''object is not subscriptable'')"

text \<open>Slicing \<^verbatim>\<open>xs[start:stop]\<close> with Python's clamping of both bounds.\<close>

definition slice_bound :: "nat \<Rightarrow> int \<Rightarrow> nat" where
  "slice_bound n i = (if i < 0 then nat (max 0 (i + int n)) else min (nat i) n)"

definition py_slice :: "'a list \<Rightarrow> int \<Rightarrow> int \<Rightarrow> 'a list" where
  "py_slice xs start stop =
     (let lo = slice_bound (length xs) start; hi = slice_bound (length xs) stop
      in take (hi - lo) (drop lo xs))"

section \<open>Protocol constants\<close>

definition PARSE_ERROR :: pyval where
  "PARSE_ERROR = PTuple [PInt (- 32700), PStr ''Parse error'']"

definition INVALID_REQUEST :: pyval where
  "INVALID_REQUEST = PTuple [PInt (- 32600), PStr ''Invalid Request'']"

definition METHOD_NOT_FOUND :: pyval where
  "METHOD_NOT_FOUND = PTuple [PInt (- 32601), PStr ''Method not found'']"

definition INVALID_PARAMS :: pyval where
  "INVALID_PARAMS = PTuple [PInt (- 32602), PStr ''Invalid params'']"

definition ONLY_POST_ALLOWED :: pyval where
  "ONLY_POST_ALLOWED = PTuple [PInt 0, PStr ''Only POST allowed'']"

definition BAD_CONTENT_TYPE :: pyval where
  "BAD_CONTENT_TYPE = PTuple [PInt 1, PStr ''Bad or missing Content-Type header'']"

definition BAD_ACCEPT :: pyval where
  "BAD_ACCEPT = PTuple [PInt 2, PStr ''Bad Accept header'']"

definition HTTP_OK :: string where
  "HTTP_OK = ''200 OK''"

definition HTTP_NO_CONTENT :: string where
  "HTTP_NO_CONTENT = ''204 No Content''"

definition HTTP_BAD_REQUEST :: string where
  "HTTP_BAD_REQUEST = ''400 Bad Request''"

definition HTTP_METHOD_NOT_ALLOWED :: string where
  "HTTP_METHOD_NOT_ALLOWED = ''405 Method Not Allowed''"

definition HTTP_NOT_ACCEPTABLE :: string where
  "HTTP_NOT_ACCEPTABLE = ''406 Not Acceptable''"

definition HTTP_UNSUPPORTED_MEDIA :: string where
  "HTTP_UNSUPPORTED_MEDIA = ''415 Unsupported Media Type''"

section \<open>Handlers and the server object\<close>

text \<open>
  \<open>argspec\<close> is what \<^verbatim>\<open>inspect.getargspec\<close> returns, cut down to the two fields the
  program reads.  A value of the methods dictionary is an arbitrary Python object: whether
  it has \<^verbatim>\<open>__call__\<close>, what \<^verbatim>\<open>inspect.getargspec\<close> answers for it (it raises for an
  object that is not a Python function), whether it has an attribute
  \<^verbatim>\<open>original_func\<close> (and then what \<^verbatim>\<open>inspect.getargspec\<close> answers for that), and what
  calling it does.  The call is the handler's own code, so it is a parameter: from the
  caller address, the arguments and the state of the world to a returned value or a raised
  exception, and the new state.  The server object passed as first argument is the
  constant, read-only server, so the behaviour is not indexed by it.  The program is
  read on a Python that still provides \<^verbatim>\<open>inspect.getargspec\<close>.
\<close>

record argspec =
  args :: "string list"
  defaults :: "pyval list option"

datatype callargs = Positional "pyval list" | Keywords "(string \<times> pyval) list"

record 's handler =
  has_call :: bool
  getargspec :: "exn + argspec"
  original_func :: "(exn + argspec) option"
  invoke :: "bytes option \<Rightarrow> callargs \<Rightarrow> 's \<Rightarrow> (exn + pyval) \<times> 's"

record 's JsonRpcServer =
  methods :: "(string \<times> 's handler) list"
  allowed_origins :: "pyval option"

text \<open>The argument of the constructor: any object, or a dict whose keys may or may not
  be strings.\<close>

datatype pykey = StrKey string | OtherKey

datatype 's methods_arg = NotADict | MethodsDict "(pykey \<times> 's handler) list"

fun check_keys :: "(pykey \<times> 's handler) list \<Rightarrow> exn + (string \<times> 's handler) list" where
  "check_keys [] = Inr []"
| "check_keys ((StrKey k, m) # kms) =
     (case check_keys kms of Inl e \<Rightarrow> Inl e | Inr r \<Rightarrow> Inr ((k, m) # r))"
| "check_keys ((OtherKey, m) # kms) =
     Inl (TypeError ''Keys in methods must be strings for the method names'')"

fun check_values :: "'s handler list \<Rightarrow> exn + unit" where
  "check_values [] = Inr ()"
| "check_values (m # ms) =
     (if \<not> has_call m then Inl (TypeError ''Method value not callable'')
      else case getargspec m of
        Inl e \<Rightarrow> Inl e
      | Inr a \<Rightarrow>
          if length (args a) < 1
          then Inl (TypeError ''Methods must accept the first argument for the json server argument'')
          else check_values ms)"

definition init :: "'s methods_arg \<Rightarrow> pyval option \<Rightarrow> exn + 's JsonRpcServer" where
  "init methods_in allowed =
     (case methods_in of
        NotADict \<Rightarrow> Inl (TypeError ''Methods must be a dictionary'')
      | MethodsDict kms \<Rightarrow>
          (case check_keys kms of
             Inl e \<Rightarrow> Inl e
           | Inr ms \<Rightarrow>
               (case check_values (map snd kms) of
                  Inl e \<Rightarrow> Inl e
                | Inr u \<Rightarrow> Inr \<lparr>methods = ms, allowed_origins = allowed\<rparr>)))"

section \<open>Response envelopes\<close>

definition return_result :: "pyval \<Rightarrow> pyval \<Rightarrow> bool \<Rightarrow> pyval" where
  "return_result result req_id err =
     PDict [(''jsonrpc'', PStr ''2.0''),
            (if err then ''error'' else ''result'', result),
            (''id'', req_id)]"

definition geterrdata :: "pyval \<Rightarrow> exn + pyval" where
  "geterrdata error =
     (case getitem error 0 of
        Inl e \<Rightarrow> Inl e
      | Inr c \<Rightarrow>
          (case getitem error 1 of
             Inl e \<Rightarrow> Inl e
           | Inr m \<Rightarrow> Inr (PDict [(''code'', c), (''message'', m)])))"

definition return_error :: "pyval \<Rightarrow> pyval \<Rightarrow> exn + pyval" where
  "return_error error req_id =
     (case geterrdata error of
        Inl e \<Rightarrow> Inl e
      | Inr d \<Rightarrow> Inr (return_result d req_id True))"

section \<open>Envelope validation\<close>

fun dict_only_contains :: "string list \<Rightarrow> string list \<Rightarrow> bool" where
  "dict_only_contains [] keys = True"
| "dict_only_contains (k # ks) keys =
     (if k \<notin> set keys then False else dict_only_contains ks keys)"

definition is_valid_request :: "pyval \<Rightarrow> bool" where
  "is_valid_request request =
     (case request of
        PDict d \<Rightarrow>
          dict_only_contains (map fst d) [''jsonrpc'', ''method'', ''params'', ''id'']
          \<and> map_of d ''jsonrpc'' \<noteq> None \<and> map_of d ''jsonrpc'' = Some (PStr ''2.0'')
          \<and> map_of d ''method'' \<noteq> None \<and> map_option type_of (map_of d ''method'') = Some TStr
          \<and> (map_of d ''id'' = None
               \<or> the (map_option type_of (map_of d ''id'')) \<in> set [TStr, TInt])
          \<and> (map_of d ''params'' = None
               \<or> the (map_option type_of (map_of d ''params'')) \<in> set [TList, TDict])
      | _ \<Rightarrow> False)"

section \<open>Single requests\<close>

text \<open>The parameter check of \<^verbatim>\<open>process_request\<close>, lines 138 to 154: the length test
  first, then, for a dict only, the two loops over names.\<close>

definition req_args_of :: "argspec \<Rightarrow> int" where
  "req_args_of a =
     int (length (args a))
       - (case defaults a of Some ds \<Rightarrow> int (length ds) | None \<Rightarrow> 0) - 2"

fun any_not_in :: "string list \<Rightarrow> string list \<Rightarrow> bool" where
  "any_not_in [] ys = False"
| "any_not_in (x # xs) ys = (if x \<notin> set ys then True else any_not_in xs ys)"

definition invalid_params_list :: "argspec \<Rightarrow> pyval list \<Rightarrow> bool" where
  "invalid_params_list a ps = (int (length ps) < req_args_of a)"

definition invalid_params_dict :: "argspec \<Rightarrow> (string \<times> pyval) list \<Rightarrow> bool" where
  "invalid_params_dict a kvs =
     (if int (length kvs) < req_args_of a then True
      else if any_not_in (map fst kvs) (args a) then True
      else any_not_in (py_slice (args a) 2 (req_args_of a + 2)) (map fst kvs))"

text \<open>What follows the call of the handler, lines 165 to 170.\<close>

definition respond :: "pyval \<Rightarrow> pyval \<Rightarrow> exn + pyval" where
  "respond res req_id =
     (if req_id = PNone then Inr PNone
      else if type_of res = TTuple then return_error res req_id
      else Inr (return_result res req_id False))"

definition call_method ::
  "'s handler \<Rightarrow> bytes option \<Rightarrow> callargs \<Rightarrow> pyval \<Rightarrow> 's \<Rightarrow> (exn + pyval) \<times> 's" where
  "call_method method ip_addr cargs req_id s =
     (case invoke method ip_addr cargs s of
        (Inl e, s') \<Rightarrow> (Inl e, s')
      | (Inr res, s') \<Rightarrow> (respond res req_id, s'))"

definition params_failure :: "pyval \<Rightarrow> 's \<Rightarrow> (exn + pyval) \<times> 's" where
  "params_failure req_id s =
     (if req_id = PNone then (Inr PNone, s) else (return_error INVALID_PARAMS req_id, s))"

text \<open>Lines 123 and 124: the defaults for an absent \<^verbatim>\<open>params\<close> and an absent
  \<^verbatim>\<open>id\<close>.\<close>

definition params_of :: "(string \<times> pyval) list \<Rightarrow> pyval" where
  "params_of d = (case map_of d ''params'' of Some p \<Rightarrow> p | None \<Rightarrow> PList [])"

definition req_id_of :: "(string \<times> pyval) list \<Rightarrow> pyval" where
  "req_id_of d = (case map_of d ''id'' of Some i \<Rightarrow> i | None \<Rightarrow> PNone)"

text \<open>Lines 138 to 154 and the choice of \<^verbatim>\<open>**params\<close> or \<^verbatim>\<open>*params\<close> of line 163:
  \<open>None\<close> when \<^verbatim>\<open>invalid_params\<close> is set, otherwise the arguments of the call.  A valid
  request has a list or a dict here; \<^verbatim>\<open>len\<close> of anything else raises.\<close>

definition bind_params :: "argspec \<Rightarrow> pyval \<Rightarrow> exn + callargs option" where
  "bind_params a params =
     (case params of
        PDict kvs \<Rightarrow> Inr (if invalid_params_dict a kvs then None else Some (Keywords kvs))
      | PList ps \<Rightarrow> Inr (if invalid_params_list a ps then None else Some (Positional ps))
      | _ \<Rightarrow> Inl (TypeError ''object has no len()''))"

definition process_request ::
  "'s JsonRpcServer \<Rightarrow> pyval \<Rightarrow> bytes option \<Rightarrow> 's \<Rightarrow> (exn + pyval) \<times> 's" where
  "process_request srv request ip_addr s =
     (if \<not> is_valid_request request then (return_error INVALID_REQUEST PNone, s)
      else
        (case request of
           PDict d \<Rightarrow>
             (case map_of d ''method'' of
                Some (PStr name) \<Rightarrow>
                  (case map_of (methods srv) name of
                     None \<Rightarrow>
                       (if req_id_of d = PNone then (Inr PNone, s)
                        else (return_error METHOD_NOT_FOUND (req_id_of d), s))
                   | Some method \<Rightarrow>
                       (case original_func method of
                          None \<Rightarrow> (Inl (AttributeError ''original_func''), s)
                        | Some (Inl e) \<Rightarrow> (Inl e, s)
                        | Some (Inr a) \<Rightarrow>
                            (case bind_params a (params_of d) of
                               Inl e \<Rightarrow> (Inl e, s)
                             | Inr None \<Rightarrow> params_failure (req_id_of d) s
                             | Inr (Some cargs) \<Rightarrow>
                                 call_method method ip_addr cargs (req_id_of d) s)))
              | _ \<Rightarrow> (Inl (KeyError ''method''), s))
         | _ \<Rightarrow> (Inl (TypeError ''object is not subscriptable''), s)))"

section \<open>Batches\<close>

fun process_request_loop ::
  "'s JsonRpcServer \<Rightarrow> pyval list \<Rightarrow> bytes option \<Rightarrow> pyval list \<Rightarrow> 's
     \<Rightarrow> (exn + pyval list) \<times> 's" where
  "process_request_loop srv [] ip_addr results s = (Inr results, s)"
| "process_request_loop srv (single_req # rest) ip_addr results s =
     (case process_request srv single_req ip_addr s of
        (Inl e, s') \<Rightarrow> (Inl e, s')
      | (Inr result, s') \<Rightarrow>
          process_request_loop srv rest ip_addr
            (if result \<noteq> PNone then results @ [result] else results) s')"

definition process_request_list ::
  "'s JsonRpcServer \<Rightarrow> pyval list \<Rightarrow> bytes option \<Rightarrow> 's \<Rightarrow> (exn + pyval) \<times> 's" where
  "process_request_list srv request ip_addr s =
     (case process_request_loop srv request ip_addr [] s of
        (Inl e, s') \<Rightarrow> (Inl e, s')
      | (Inr results, s') \<Rightarrow>
          (if length results = 0 then (Inr PNone, s') else (Inr (PList results), s')))"

section \<open>The transport adapter\<close>

text \<open>
  The WSGI environment, with the keys the program reads.  \<^verbatim>\<open>REQUEST_METHOD\<close> and
  \<^verbatim>\<open>wsgi.input\<close> are always there (the gateway interface requires them); the other three
  may be absent.  Header values are strings of 8-bit characters, as the interface
  delivers them.  \<open>wsgi_input\<close> is what \<^verbatim>\<open>env['wsgi.input'].read()\<close> returns.
\<close>

record environ =
  REQUEST_METHOD :: string
  CONTENT_TYPE :: "string option"
  HTTP_ACCEPT :: "string option"
  REMOTE_ADDR :: "string option"
  wsgi_input :: bytes

text \<open>
  The library functions the adapter calls, taken as parameters:
  \<^verbatim>\<open>ipaddress.ip_address(x).packed\<close> (raises \<open>ValueError\<close> for a string that is no
  address), \<^verbatim>\<open>bytes.decode('utf-8')\<close> (\<open>None\<close>: raises \<open>UnicodeDecodeError\<close>),
  \<^verbatim>\<open>json.loads\<close> and \<^verbatim>\<open>json.dumps(x).encode()\<close>.  \<^verbatim>\<open>json.loads\<close> raises
  \<open>JSONDecodeError\<close> for a text it rejects, and it can raise other exceptions as well:
  a text nested deeper than the interpreter's recursion limit ends in \<open>RecursionError\<close>.
\<close>

record pylib =
  ip_address_packed :: "string \<Rightarrow> exn + bytes"
  decode_utf8 :: "bytes \<Rightarrow> string option"
  json_loads :: "string \<Rightarrow> exn + pyval"
  json_dumps_encode :: "pyval \<Rightarrow> exn + bytes"

subsection \<open>String helpers: \<^verbatim>\<open>str.split\<close>, \<^verbatim>\<open>str.strip\<close>\<close>

fun split :: "char \<Rightarrow> string \<Rightarrow> string list" where
  "split sep [] = [[]]"
| "split sep (c # cs) =
     (if c = sep then [] # split sep cs
      else case split sep cs of
             w # ws \<Rightarrow> (c # w) # ws
           | [] \<Rightarrow> [[c]])"

text \<open>\<^verbatim>\<open>str.isspace\<close> on one character below 256: tab to carriage return, the four
  separators 28 to 31, space, NEL and the no-break space.\<close>

definition isspace :: "char \<Rightarrow> bool" where
  "isspace c =
     (let n = (of_char c :: nat)
      in (9 \<le> n \<and> n \<le> 13) \<or> (28 \<le> n \<and> n \<le> 32) \<or> n = 133 \<or> n = 160)"

definition strip :: "string \<Rightarrow> string" where
  "strip s = rev (dropWhile isspace (rev (dropWhile isspace s)))"

definition not_valid_content_type :: "string \<Rightarrow> bool" where
  "not_valid_content_type content_type =
     (let parts = split CHR '';'' content_type
      in if length parts > 2 then True
         else if length parts > 1 \<and> take 8 (strip (parts ! 1)) \<noteq> ''charset='' then True
         else parts ! 0 \<notin> set [''application/json-rpc'', ''application/json'',
                                 ''application/jsonrequest''])"

subsection \<open>\<^verbatim>\<open>process_call\<close>\<close>

text \<open>
  \<^verbatim>\<open>start_response(status, headers)\<close> is recorded in the result: \<open>Some (status, headers)\<close>
  when \<^verbatim>\<open>process_call\<close> called it, \<open>None\<close> when it did not.  The second component is
  the value returned.
\<close>

type_synonym started = "(string \<times> (string \<times> string) list) option"

text \<open>The constructor sets the attributes \<^verbatim>\<open>methods\<close> and \<^verbatim>\<open>allowed_origins\<close> and
  the class defines no other data attribute, so reading \<^verbatim>\<open>self.allowed_origin\<close>
  (line 197) raises.\<close>

definition get_allowed_origin :: "'s JsonRpcServer \<Rightarrow> exn + string" where
  "get_allowed_origin srv = Inl (AttributeError ''allowed_origin'')"

definition extra_checks :: "environ \<Rightarrow> bytes option \<Rightarrow> pyval" where
  "extra_checks env ip_addr = PNone"

definition error_reply ::
  "string \<Rightarrow> (string \<times> string) list \<Rightarrow> pyval \<Rightarrow> 's \<Rightarrow> (exn + started \<times> pyval) \<times> 's" where
  "error_reply status headers error s =
     (case return_error error PNone of
        Inl e \<Rightarrow> (Inl e, s)
      | Inr r \<Rightarrow> (Inr (Some (status, headers), r), s))"

definition caller_address :: "pylib \<Rightarrow> environ \<Rightarrow> exn + bytes option" where
  "caller_address lib env =
     (case REMOTE_ADDR env of
        Some a \<Rightarrow> (case ip_address_packed lib a of Inl e \<Rightarrow> Inl e | Inr b \<Rightarrow> Inr (Some b))
      | None \<Rightarrow> Inr None)"

definition read_request :: "pylib \<Rightarrow> environ \<Rightarrow> exn + pyval" where
  "read_request lib env =
     (case decode_utf8 lib (wsgi_input env) of
        None \<Rightarrow> Inl UnicodeDecodeError
      | Some txt \<Rightarrow> json_loads lib txt)"

definition dispatch ::
  "'s JsonRpcServer \<Rightarrow> (string \<times> string) list \<Rightarrow> pyval \<Rightarrow> bytes option \<Rightarrow> 's
     \<Rightarrow> (exn + started \<times> pyval) \<times> 's" where
  "dispatch srv headers request ip_addr s =
     (case (case request of
              PList rs \<Rightarrow> process_request_list srv rs ip_addr s
            | _ \<Rightarrow> process_request srv request ip_addr s) of
        (Inl e, s') \<Rightarrow> (Inl e, s')
      | (Inr result, s') \<Rightarrow>
          (if result = PNone then (Inr (Some (HTTP_NO_CONTENT, []), result), s')
           else (Inr (Some (HTTP_OK, headers), result), s')))"

definition process_call ::
  "pylib \<Rightarrow> 's JsonRpcServer \<Rightarrow> environ \<Rightarrow> 's \<Rightarrow> (exn + started \<times> pyval) \<times> 's" where
  "process_call lib srv env s =
     (case (if allowed_origins srv \<noteq> None
            then (case get_allowed_origin srv of
                    Inl e \<Rightarrow> Inl e
                  | Inr v \<Rightarrow> Inr [(''Content-Type'', ''application/json-rpc''),
                                  (''Access-Control-Allow-Origin'', v)])
            else Inr [(''Content-Type'', ''application/json-rpc'')]) of
        Inl e \<Rightarrow> (Inl e, s)
      | Inr headers \<Rightarrow>
          (if REQUEST_METHOD env \<noteq> ''POST'' then
             (if REQUEST_METHOD env = ''OPTIONS''
              then (Inr (Some (HTTP_OK, headers @ [(''Allow'', ''POST''),
                      (''Access-Control-Allow-Headers'',
                       ''Content-Type, Accept, Content-Length, Host, Origin, User-Agent, Referer'')]),
                      PNone), s)
              else error_reply HTTP_METHOD_NOT_ALLOWED (headers @ [(''Allow'', ''POST'')])
                     ONLY_POST_ALLOWED s)
           else if CONTENT_TYPE env = None \<or> not_valid_content_type (the (CONTENT_TYPE env))
           then error_reply HTTP_UNSUPPORTED_MEDIA headers BAD_CONTENT_TYPE s
           else if HTTP_ACCEPT env \<noteq> None \<and> not_valid_content_type (the (HTTP_ACCEPT env))
           then error_reply HTTP_NOT_ACCEPTABLE headers BAD_ACCEPT s
           else
             (case caller_address lib env of
                Inl e \<Rightarrow> (Inl e, s)
              | Inr ip_addr \<Rightarrow>
                  (if extra_checks env ip_addr \<noteq> PNone
                   then (Inr (None, extra_checks env ip_addr), s)
                   else
                     (case read_request lib env of
                        Inl e \<Rightarrow>
                          (if is_ValueError e
                           then error_reply HTTP_BAD_REQUEST headers PARSE_ERROR s
                           else (Inl e, s))
                      | Inr request \<Rightarrow> dispatch srv headers request ip_addr s)))))"

text \<open>\<^verbatim>\<open>__call__\<close>: the body handed to the gateway.\<close>

definition call ::
  "pylib \<Rightarrow> 's JsonRpcServer \<Rightarrow> environ \<Rightarrow> 's \<Rightarrow> (exn + started \<times> bytes list) \<times> 's" where
  "call lib srv env s =
     (case process_call lib srv env s of
        (Inl e, s') \<Rightarrow> (Inl e, s')
      | (Inr (st, result), s') \<Rightarrow>
          (if result = PNone then (Inr (st, [[]]), s')
           else case json_dumps_encode lib result of
                  Inl e \<Rightarrow> (Inl e, s')
                | Inr body \<Rightarrow> (Inr (st, [body]), s')))"

section \<open>The specification's vocabulary\<close>

text \<open>The two response envelopes of the data model.\<close>

definition error_envelope :: "pyval \<Rightarrow> pyval \<Rightarrow> pyval \<Rightarrow> pyval" where
  "error_envelope code message req_id =
     PDict [(''jsonrpc'', PStr ''2.0''),
            (''error'', PDict [(''code'', code), (''message'', message)]),
            (''id'', req_id)]"

definition success_envelope :: "pyval \<Rightarrow> pyval \<Rightarrow> pyval" where
  "success_envelope result req_id =
     PDict [(''jsonrpc'', PStr ''2.0''), (''result'', result), (''id'', req_id)]"

fun has_key :: "pyval \<Rightarrow> string \<Rightarrow> bool" where
  "has_key (PDict kvs) k = (k \<in> set (map fst kvs))"
| "has_key v k = False"

text \<open>The ways a candidate request fails the envelope shape, in the words of the
  specification: not a mapping, a key outside the four, \<open>jsonrpc\<close> not exactly "2.0",
  \<open>method\<close> missing or not a string, \<open>id\<close> present but neither string nor integer,
  \<open>params\<close> present but neither sequence nor mapping.\<close>

definition envelope_violation :: "pyval \<Rightarrow> bool" where
  "envelope_violation request =
     (case request of
        PDict d \<Rightarrow>
          (\<exists>k \<in> set (map fst d). k \<notin> {''jsonrpc'', ''method'', ''params'', ''id''})
          \<or> map_of d ''jsonrpc'' \<noteq> Some (PStr ''2.0'')
          \<or> (case map_of d ''method'' of None \<Rightarrow> True | Some v \<Rightarrow> type_of v \<noteq> TStr)
          \<or> (case map_of d ''id'' of
                None \<Rightarrow> False
              | Some v \<Rightarrow> type_of v \<noteq> TStr \<and> type_of v \<noteq> TInt)
          \<or> (case map_of d ''params'' of
                None \<Rightarrow> False
              | Some v \<Rightarrow> type_of v \<noteq> TList \<and> type_of v \<noteq> TDict)
      | _ \<Rightarrow> True)"

text \<open>The parameter schema of a handler, read off its signature: the number of
  parameters with a default, and the names without one after the two implicit leading
  parameters.  A signature Python accepts has distinct names and no more defaults than
  parameters.\<close>

definition ndefaults :: "argspec \<Rightarrow> nat" where
  "ndefaults a = (case defaults a of None \<Rightarrow> 0 | Some ds \<Rightarrow> length ds)"



text \<open>A methods dictionary with the attribute \<^verbatim>\<open>original_func\<close> removed from every
  value.\<close>

definition strip_original_func ::
  "(pykey \<times> 's handler) list \<Rightarrow> (pykey \<times> 's handler) list" where
  "strip_original_func kms = map (\<lambda>(k, h). (k, h\<lparr>original_func := None\<rparr>)) kms"

text \<open>The batch processor in the words of the specification: single-request processing
  applied to each element in order, the state handed from one to the next, stopping at an
  uncaught exception; then the entries that produced no response are left out.\<close>

fun run_each ::
  "'s JsonRpcServer \<Rightarrow> pyval list \<Rightarrow> bytes option \<Rightarrow> 's \<Rightarrow> (exn + pyval list) \<times> 's" where
  "run_each srv [] ip_addr s = (Inr [], s)"
| "run_each srv (r # rs) ip_addr s =
     (case process_request srv r ip_addr s of
        (Inl e, s') \<Rightarrow> (Inl e, s')
      | (Inr out, s') \<Rightarrow>
          (case run_each srv rs ip_addr s' of
             (Inl e, s'') \<Rightarrow> (Inl e, s'')
           | (Inr outs, s'') \<Rightarrow> (Inr (out # outs), s'')))"

definition responses :: "pyval list \<Rightarrow> pyval list" where
  "responses outs = filter (\<lambda>r. r \<noteq> PNone) outs"

text \<open>A POST call that passes the two header checks and whose caller address is
  extracted as \<open>ip_addr\<close>; the hook of the base class lets every call through.\<close>

definition passes_checks :: "pylib \<Rightarrow> environ \<Rightarrow> bytes option \<Rightarrow> bool" where
  "passes_checks lib env ip_addr =
     (REQUEST_METHOD env = ''POST''
      \<and> (case CONTENT_TYPE env of None \<Rightarrow> False | Some ct \<Rightarrow> \<not> not_valid_content_type ct)
      \<and> (case HTTP_ACCEPT env of None \<Rightarrow> True | Some ac \<Rightarrow> \<not> not_valid_content_type ac)
      \<and> caller_address lib env = Inr ip_addr)"

text \<open>The header grammar in the words of the specification: one of the three base media
  types, optionally followed by a single \<open>charset=\<close> parameter.\<close>

definition media_types :: "string list" where
  "media_types = [''application/json-rpc'', ''application/json'', ''application/jsonrequest'']"

definition media_type_ok :: "string \<Rightarrow> bool" where
  "media_type_ok ct =
     (\<exists>base \<in> set media_types.
        ct = base
        \<or> (\<exists>ws rest. ct = base @ '';'' @ ws @ ''charset='' @ rest
              \<and> (\<forall>c \<in> set ws. isspace c) \<and> CHR '';'' \<notin> set rest))"

section \<open>A small server, for concrete runs\<close>

text \<open>The state counts the invocations of handlers.  \<open>add_handler\<close>, \<open>fail_handler\<close>
  and \<open>triple_handler\<close> are decorated functions: the registered wrapper takes anything,
  and \<^verbatim>\<open>original_func\<close> is the function as written, \<^verbatim>\<open>def add(ctx, addr, a, b)\<close> for the
  first.  \<open>bare_handler\<close> is a plain function, registered without the decorator.\<close>

definition add_spec :: argspec where
  "add_spec = \<lparr>args = [''ctx'', ''addr'', ''a'', ''b''], defaults = None\<rparr>"

definition plain_spec :: argspec where
  "plain_spec = \<lparr>args = [''ctx'', ''addr''], defaults = None\<rparr>"

definition add_handler :: "nat handler" where
  "add_handler =
     \<lparr>has_call = True,
      getargspec = Inr \<lparr>args = [''args'', ''kwargs''], defaults = None\<rparr>,
      original_func = Some (Inr add_spec),
      invoke = (\<lambda>ip cargs n.
        case cargs of
          Positional [PInt a, PInt b] \<Rightarrow> (Inr (PInt (a + b)), Suc n)
        | Keywords kvs \<Rightarrow>
            (case (map_of kvs ''a'', map_of kvs ''b'') of
               (Some (PInt a), Some (PInt b)) \<Rightarrow> (Inr (PInt (a + b)), Suc n)
             | _ \<Rightarrow> (Inl (TypeError ''unsupported operand''), Suc n))
        | _ \<Rightarrow> (Inl (TypeError ''add() takes 4 positional arguments''), n))\<rparr>"

definition fail_handler :: "nat handler" where
  "fail_handler =
     \<lparr>has_call = True,
      getargspec = Inr \<lparr>args = [''args'', ''kwargs''], defaults = None\<rparr>,
      original_func = Some (Inr plain_spec),
      invoke = (\<lambda>ip cargs n. (Inr (PTuple [PInt 7, PStr ''boom'']), Suc n))\<rparr>"

definition triple_handler :: "nat handler" where
  "triple_handler =
     \<lparr>has_call = True,
      getargspec = Inr \<lparr>args = [''args'', ''kwargs''], defaults = None\<rparr>,
      original_func = Some (Inr plain_spec),
      invoke = (\<lambda>ip cargs n. (Inr (PTuple [PInt 7, PStr ''boom'', PInt 9]), Suc n))\<rparr>"

definition bare_handler :: "nat handler" where
  "bare_handler =
     \<lparr>has_call = True,
      getargspec = Inr add_spec,
      original_func = None,
      invoke = (\<lambda>ip cargs n. (Inr (PInt 0), Suc n))\<rparr>"

definition ex_methods :: "nat methods_arg" where
  "ex_methods = MethodsDict [(StrKey ''add'', add_handler), (StrKey ''fail'', fail_handler),
     (StrKey ''triple'', triple_handler), (StrKey ''bare'', bare_handler)]"

definition ex_server :: "nat JsonRpcServer" where
  "ex_server = \<lparr>methods = [(''add'', add_handler), (''fail'', fail_handler),
     (''triple'', triple_handler), (''bare'', bare_handler)], allowed_origins = None\<rparr>"

definition cors_server :: "nat JsonRpcServer" where
  "cors_server = \<lparr>methods = [(''add'', add_handler)], allowed_origins = Some (PStr ''*'')\<rparr>"

definition ex_notification :: "(string \<times> pyval) list" where
  "ex_notification =
     [(''jsonrpc'', PStr ''2.0''), (''method'', PStr ''add''),
      (''params'', PList [PInt 1, PInt 2])]"

definition ex_no_version :: pyval where
  "ex_no_version =
     PDict [(''method'', PStr ''add''), (''params'', PList [PInt 1, PInt 2]), (''id'', PInt 1)]"

definition ex_call :: "string \<Rightarrow> pyval \<Rightarrow> (string \<times> pyval) list" where
  "ex_call name params =
     [(''jsonrpc'', PStr ''2.0''), (''method'', PStr name), (''params'', params),
      (''id'', PInt 1)]"


definition deep_text :: string where
  "deep_text = replicate 1000 CHR ''[''"

text \<open>A fragment of the library, exact on the inputs used below: one address, ASCII
  bodies, the JSON texts \<^verbatim>\<open>[]\<close> and \<^verbatim>\<open>[1]\<close>, the rejected text \<^verbatim>\<open>[\<close> and the
  thousand brackets, on which \<^verbatim>\<open>json.loads\<close> exceeds the default recursion limit; the
  encoder's output is not looked at.\<close>

definition ex_lib :: pylib where
  "ex_lib =
     \<lparr>ip_address_packed = (\<lambda>a. if a = ''127.0.0.1'' then Inr [127, 0, 0, 1]
                                else Inl (ValueError ''not an IPv4 or IPv6 address'')),
      decode_utf8 = (\<lambda>b. if list_all (\<lambda>x. x < 128) b
                          then Some (map (\<lambda>x. char_of (unat x)) b) else None),
      json_loads = (\<lambda>t. if t = deep_text then Inl RecursionError
                         else if t = ''[]'' then Inr (PList [])
                         else if t = ''[1]'' then Inr (PList [PInt 1])
                         else Inl JSONDecodeError),
      json_dumps_encode = (\<lambda>v. Inr [])\<rparr>"

definition ex_post :: "string option \<Rightarrow> bytes \<Rightarrow> environ" where
  "ex_post ct body =
     \<lparr>REQUEST_METHOD = ''POST'', CONTENT_TYPE = ct,
      HTTP_ACCEPT = None, REMOTE_ADDR = Some ''127.0.0.1'', wsgi_input = body\<rparr>"

definition json_post :: "bytes \<Rightarrow> environ" where
  "json_post body = ex_post (Some ''application/json'') body"

section \<open>Basic facts\<close>

lemma dict_only_contains_iff: "dict_only_contains ks keys \<longleftrightarrow> set ks \<subseteq> set keys"
  by (induction ks) auto


lemma type_of_TStr: "type_of v = TStr \<longleftrightarrow> (\<exists>x. v = PStr x)"
  by (cases v) auto

lemma geterrdata_pair:
  "geterrdata (PTuple (c # m # rest)) = Inr (PDict [(''code'', c), (''message'', m)])"
  by (simp add: geterrdata_def seq_getitem_def)

lemma return_error_pair:
  "return_error (PTuple (c # m # rest)) req_id = Inr (error_envelope c m req_id)"
  by (simp add: return_error_def geterrdata_pair return_result_def error_envelope_def)

lemma return_result_success: "return_result res req_id False = success_envelope res req_id"
  by (simp add: return_result_def success_envelope_def)

lemma is_valid_request_iff: "is_valid_request request \<longleftrightarrow> \<not> envelope_violation request"
  by (cases request)
     (auto simp: is_valid_request_def envelope_violation_def dict_only_contains_iff
           split: option.splits)

lemma valid_req_id:
  "is_valid_request (PDict d) \<Longrightarrow> (req_id_of d = PNone) = (map_of d ''id'' = None)"
  by (auto simp: is_valid_request_def req_id_of_def split: option.splits)

text \<open>A valid request, unfolded up to the call of the handler.\<close>

lemma process_request_valid:
  assumes "is_valid_request (PDict d)" and "map_of d ''method'' = Some (PStr name)"
  shows "process_request srv (PDict d) ip_addr s =
     (case map_of (methods srv) name of
        None \<Rightarrow>
          (if req_id_of d = PNone then (Inr PNone, s)
           else (Inr (error_envelope (PInt (- 32601)) (PStr ''Method not found'')
                        (req_id_of d)), s))
      | Some method \<Rightarrow>
          (case original_func method of
             None \<Rightarrow> (Inl (AttributeError ''original_func''), s)
           | Some (Inl e) \<Rightarrow> (Inl e, s)
           | Some (Inr a) \<Rightarrow>
               (case bind_params a (params_of d) of
                  Inl e \<Rightarrow> (Inl e, s)
                | Inr None \<Rightarrow>
                    (if req_id_of d = PNone then (Inr PNone, s)
                     else (Inr (error_envelope (PInt (- 32602)) (PStr ''Invalid params'')
                                  (req_id_of d)), s))
                | Inr (Some cargs) \<Rightarrow> call_method method ip_addr cargs (req_id_of d) s)))"
  using assms
  by (simp add: process_request_def params_failure_def METHOD_NOT_FOUND_def INVALID_PARAMS_def
        return_error_pair split: option.splits sum.splits)

lemma call_method_notification:
  "call_method m ip_addr cargs PNone s =
     (case invoke m ip_addr cargs s of
        (Inl e, s') \<Rightarrow> (Inl e, s')
      | (Inr res, s') \<Rightarrow> (Inr PNone, s'))"
  by (simp add: call_method_def respond_def split: prod.splits sum.splits)

subsection \<open>The parameter schema\<close>

lemma req_args_of_alt: "req_args_of a = int (length (args a)) - int (ndefaults a) - 2"
  by (simp add: req_args_of_def ndefaults_def split: option.splits)






subsection \<open>What becomes of the handler's return value\<close>

lemma respond_cases:
  assumes "req_id \<noteq> PNone"
  shows "respond (PTuple (c # msg # rest)) req_id = Inr (error_envelope c msg req_id)"
    and "type_of res \<noteq> TTuple \<Longrightarrow> respond res req_id = Inr (success_envelope res req_id)"
  using assms by (simp_all add: respond_def return_error_pair return_result_success)

lemma respond_one_of:
  "respond res req_id = Inr env \<Longrightarrow> req_id \<noteq> PNone \<Longrightarrow>
     has_key env ''result'' \<noteq> has_key env ''error''"
  by (auto simp: respond_def return_error_def return_result_def split: if_splits sum.splits)

subsection \<open>The constructor does not look at \<^verbatim>\<open>original_func\<close>\<close>

lemma check_keys_strip:
  "check_keys kms = Inr r \<Longrightarrow> \<exists>r'. check_keys (strip_original_func kms) = Inr r'"
proof (induction kms arbitrary: r rule: check_keys.induct)
  case 1
  then show ?case by (simp add: strip_original_func_def)
next
  case (2 k m kms)
  then show ?case by (auto simp: strip_original_func_def split: sum.splits)
next
  case (3 m kms)
  then show ?case by simp
qed

lemma check_values_strip:
  "check_values (map snd (strip_original_func kms)) = check_values (map snd kms)"
  by (induction kms) (auto simp: strip_original_func_def split: sum.splits)

lemma init_strip:
  "init (MethodsDict kms) allowed = Inr srv \<Longrightarrow>
     \<exists>srv'. init (MethodsDict (strip_original_func kms)) allowed = Inr srv'"
  using check_keys_strip [of kms]
  by (auto simp: init_def check_values_strip split: sum.splits)

subsection \<open>The batch loop\<close>

lemma process_request_loop_run_each:
  "process_request_loop srv rs ip_addr acc s =
     (case run_each srv rs ip_addr s of
        (Inl e, s') \<Rightarrow> (Inl e, s')
      | (Inr outs, s') \<Rightarrow> (Inr (acc @ responses outs), s'))"
proof (induction rs arbitrary: acc s)
  case Nil
  then show ?case by (simp add: responses_def)
next
  case (Cons r rs)
  show ?case
    by (simp add: Cons.IH responses_def split: prod.splits sum.splits)
qed

lemma process_request_list_run_each:
  "process_request_list srv reqs ip_addr s =
     (case run_each srv reqs ip_addr s of
        (Inl e, s') \<Rightarrow> (Inl e, s')
      | (Inr outs, s') \<Rightarrow>
          (if responses outs = [] then Inr PNone else Inr (PList (responses outs)), s'))"
  by (simp add: process_request_list_def process_request_loop_run_each
        split: prod.splits sum.splits)

subsection \<open>The adapter past its checks\<close>

lemma error_reply_pair:
  "error_reply status hs (PTuple (c # m # rest)) s =
     (Inr (Some (status, hs), error_envelope c m PNone), s)"
  by (simp add: error_reply_def return_error_pair)

lemma process_call_passed:
  assumes "allowed_origins srv = None" and "passes_checks lib env ip_addr"
  shows "process_call lib srv env s =
     (case read_request lib env of
        Inl e \<Rightarrow>
          (if is_ValueError e
           then (Inr (Some (HTTP_BAD_REQUEST, [(''Content-Type'', ''application/json-rpc'')]),
                      error_envelope (PInt (- 32700)) (PStr ''Parse error'') PNone), s)
           else (Inl e, s))
      | Inr request \<Rightarrow>
          dispatch srv [(''Content-Type'', ''application/json-rpc'')] request ip_addr s)"
  using assms
  by (auto simp: process_call_def passes_checks_def extra_checks_def PARSE_ERROR_def
        error_reply_pair split: option.splits sum.splits)

subsection \<open>Runs of the small server\<close>

lemma init_ex: "init ex_methods None = Inr ex_server"
  by (simp add: init_def ex_methods_def ex_server_def add_handler_def fail_handler_def
        triple_handler_def bare_handler_def add_spec_def)

lemma ex_notification_valid: "is_valid_request (PDict ex_notification)"
  by (simp add: is_valid_request_def ex_notification_def)

lemma ex_call_valid:
  "type_of params = TList \<or> type_of params = TDict \<Longrightarrow>
     is_valid_request (PDict (ex_call name params))"
  by (auto simp: is_valid_request_def ex_call_def)

lemma ex_call_method: "map_of (ex_call name params) ''method'' = Some (PStr name)"
  by (simp add: ex_call_def)

lemma ex_call_fields:
  "req_id_of (ex_call name params) = PInt 1" "params_of (ex_call name params) = params"
  by (simp_all add: ex_call_def req_id_of_def params_of_def)

lemma ex_triple_run:
  "process_request ex_server (PDict (ex_call ''triple'' (PList []))) None 0
     = (Inr (error_envelope (PInt 7) (PStr ''boom'') (PInt 1)), 1)"
proof -
  have v: "is_valid_request (PDict (ex_call ''triple'' (PList [])))"
    by (simp add: ex_call_valid)
  show ?thesis
    by (simp add: process_request_valid [OF v ex_call_method] ex_call_fields ex_server_def
          triple_handler_def plain_spec_def bind_params_def invalid_params_list_def
          req_args_of_def call_method_def respond_def return_error_pair)
qed

lemma ex_add_run:
  "process_request ex_server (PDict (ex_call ''add'' (PList [PInt 1, PInt 1]))) None s
     = (Inr (success_envelope (PInt 2) (PInt 1)), Suc s)"
proof -
  have v: "is_valid_request (PDict (ex_call ''add'' (PList [PInt 1, PInt 1])))"
    by (simp add: ex_call_valid)
  show ?thesis
    by (simp add: process_request_valid [OF v ex_call_method] ex_call_fields ex_server_def
          add_handler_def add_spec_def bind_params_def invalid_params_list_def
          req_args_of_def call_method_def respond_def return_result_success)
qed

lemma ex_notification_run:
  "process_request ex_server (PDict ex_notification) None s = (Inr PNone, Suc s)"
proof -
  have m: "map_of ex_notification ''method'' = Some (PStr ''add'')"
    by (simp add: ex_notification_def)
  have f: "req_id_of ex_notification = PNone"
    "params_of ex_notification = PList [PInt 1, PInt 2]"
    by (simp_all add: req_id_of_def params_of_def ex_notification_def)
  show ?thesis
    by (simp add: process_request_valid [OF ex_notification_valid m] ex_server_def
          add_handler_def add_spec_def bind_params_def invalid_params_list_def
          req_args_of_def call_method_def respond_def f)
qed



subsection \<open>Calls on the small server\<close>

lemma ex_chars:
  "char_of (91::nat) = CHR ''[''" "char_of (93::nat) = CHR '']''" "char_of (49::nat) = CHR ''1''"
  by code_simp+

lemma json_post_passes: "passes_checks ex_lib (json_post body) (Some [127, 0, 0, 1])"
  by (simp add: passes_checks_def json_post_def ex_post_def not_valid_content_type_def
        caller_address_def ex_lib_def)

lemma short_not_deep: "length t < 1000 \<Longrightarrow> t \<noteq> deep_text"
  by (auto simp: deep_text_def)

lemma ex_read_empty: "read_request ex_lib (json_post [0x5B, 0x5D]) = Inr (PList [])"
  by (simp add: read_request_def ex_lib_def json_post_def ex_post_def ex_chars short_not_deep)

lemma ex_read_one: "read_request ex_lib (json_post [0x5B, 0x31, 0x5D]) = Inr (PList [PInt 1])"
  by (simp add: read_request_def ex_lib_def json_post_def ex_post_def ex_chars short_not_deep)



subsection \<open>The header grammar\<close>

lemma split_no_sep: "sep \<notin> set s \<Longrightarrow> split sep s = [s]"
  by (induction s) auto

lemma split_at_sep: "sep \<notin> set a \<Longrightarrow> split sep (a @ sep # b) = a # split sep b"
  by (induction a) auto

lemma split_not_Nil: "split sep s \<noteq> []"
  by (induction s) (auto split: list.splits)

lemma split_Cons:
  "split sep s = x # xs \<Longrightarrow>
     sep \<notin> set x \<and> (if xs = [] then s = x else \<exists>b. s = x @ sep # b \<and> xs = split sep b)"
proof (induction s arbitrary: x xs)
  case Nil
  then show ?case by simp
next
  case (Cons c cs)
  show ?case
  proof (cases "c = sep")
    case True
    with Cons.prems show ?thesis by (auto simp: split_not_Nil)
  next
    case False
    obtain w ws where w: "split sep cs = w # ws"
      using split_not_Nil [of sep cs] by (cases "split sep cs") auto
    from Cons.IH [OF w] Cons.prems False w show ?thesis
      by (auto split: if_splits)
  qed
qed

lemma split_one_iff: "split sep s = [x] \<longleftrightarrow> s = x \<and> sep \<notin> set x"
  using split_Cons [of sep s x "[]"] split_no_sep [of sep s] by auto

lemma split_two_iff:
  "split sep s = [x, y] \<longleftrightarrow> s = x @ sep # y \<and> sep \<notin> set x \<and> sep \<notin> set y"
proof
  assume h: "split sep s = [x, y]"
  from split_Cons [OF h] obtain b where b: "s = x @ sep # b" "[y] = split sep b" "sep \<notin> set x"
    by auto
  from b(2) have "b = y \<and> sep \<notin> set y" by (simp add: split_one_iff [symmetric])
  with b show "s = x @ sep # y \<and> sep \<notin> set x \<and> sep \<notin> set y" by simp
next
  assume "s = x @ sep # y \<and> sep \<notin> set x \<and> sep \<notin> set y"
  then show "split sep s = [x, y]" by (simp add: split_at_sep split_no_sep)
qed

lemma dropWhile_keep:
  "xs \<noteq> [] \<Longrightarrow> \<not> P (hd xs) \<Longrightarrow> dropWhile P (ys @ xs) = dropWhile P ys @ xs"
  by (induction ys) (auto simp: neq_Nil_conv)

lemma strip_prefix_kept:
  assumes "k \<noteq> []" and "\<not> isspace (hd k)" and "\<not> isspace (last k)"
    and "\<forall>c \<in> set ws. isspace c"
  shows "strip (ws @ k @ rest) = k @ rev (dropWhile isspace (rev rest))"
proof -
  have "dropWhile isspace (ws @ k @ rest) = k @ rest"
    using assms by (simp add: neq_Nil_conv) (cases k; auto)
  moreover have "dropWhile isspace (rev rest @ rev k) = dropWhile isspace (rev rest) @ rev k"
    using assms by (intro dropWhile_keep) (auto simp: hd_rev)
  ultimately show ?thesis by (simp add: strip_def)
qed

lemma strip_decompose:
  "\<exists>ws t. s = ws @ strip s @ t \<and> (\<forall>c \<in> set ws. isspace c)"
proof -
  let ?q = "dropWhile isspace s"
  have 1: "s = takeWhile isspace s @ ?q" by simp
  have "rev (takeWhile isspace (rev ?q) @ dropWhile isspace (rev ?q)) = ?q"
    by (simp only: takeWhile_dropWhile_id rev_rev_ident)
  then have "rev (dropWhile isspace (rev ?q)) @ rev (takeWhile isspace (rev ?q)) = ?q"
    by (simp only: rev_append)
  then have 2: "?q = strip s @ rev (takeWhile isspace (rev ?q))"
    by (simp only: strip_def)
  have 3: "\<forall>c \<in> set (takeWhile isspace s). isspace c"
    by (auto dest: set_takeWhileD)
  from 1 2 3 show ?thesis by metis
qed

lemma charset_not_space:
  "\<not> isspace (hd ''charset='')" "\<not> isspace (last ''charset='')"
  by (simp_all add: isspace_def)

lemma strip_charset_iff:
  "take 8 (strip p) = ''charset='' \<longleftrightarrow>
     (\<exists>ws rest. p = ws @ ''charset='' @ rest \<and> (\<forall>c \<in> set ws. isspace c))"
proof
  assume h: "take 8 (strip p) = ''charset=''"
  obtain ws t where d: "p = ws @ strip p @ t" "\<forall>c \<in> set ws. isspace c"
    using strip_decompose [of p] by blast
  have "strip p = take 8 (strip p) @ drop 8 (strip p)" by simp
  with h have "strip p = ''charset='' @ drop 8 (strip p)" by simp
  with d(1) have "p = ws @ ''charset='' @ (drop 8 (strip p) @ t)"
    by (metis append.assoc)
  with d(2) show "\<exists>ws rest. p = ws @ ''charset='' @ rest \<and> (\<forall>c \<in> set ws. isspace c)"
    by blast
next
  assume "\<exists>ws rest. p = ws @ ''charset='' @ rest \<and> (\<forall>c \<in> set ws. isspace c)"
  then obtain ws rest where d: "p = ws @ ''charset='' @ rest" "\<forall>c \<in> set ws. isspace c"
    by blast
  have "strip p = ''charset='' @ rev (dropWhile isspace (rev rest))"
    unfolding d(1) using charset_not_space d(2) by (intro strip_prefix_kept) simp_all
  then show "take 8 (strip p) = ''charset=''" by simp
qed

lemma media_types_no_sep: "base \<in> set media_types \<Longrightarrow> CHR '';'' \<notin> set base"
  by (auto simp: media_types_def)

lemma isspace_not_sep: "isspace c \<Longrightarrow> c \<noteq> CHR '';''"
  by (auto simp: isspace_def)

lemma not_valid_content_type_iff: "not_valid_content_type ct \<longleftrightarrow> \<not> media_type_ok ct"
proof -
  obtain x xs where sp: "split CHR '';'' ct = x # xs"
    using split_not_Nil [of "CHR '';''" ct] by (cases "split CHR '';'' ct") auto
  consider (one) "xs = []" | (two) y where "xs = [y]" | (more) "length xs \<ge> 2"
    by (cases xs; cases "tl xs") auto
  then show ?thesis
  proof cases
    case one
    with sp have c: "ct = x" "CHR '';'' \<notin> set x" by (simp_all add: split_one_iff)
    have "media_type_ok ct \<longleftrightarrow> ct \<in> set media_types"
    proof
      assume "media_type_ok ct"
      then show "ct \<in> set media_types"
        using c unfolding media_type_ok_def by auto
    next
      assume "ct \<in> set media_types"
      then show "media_type_ok ct" unfolding media_type_ok_def by auto
    qed
    with sp one c show ?thesis
      by (simp add: not_valid_content_type_def media_types_def)
  next
    case two
    with sp have c: "ct = x @ CHR '';'' # y" "CHR '';'' \<notin> set x" "CHR '';'' \<notin> set y"
      by (simp_all add: split_two_iff)
    have nv: "not_valid_content_type ct \<longleftrightarrow>
                \<not> (take 8 (strip y) = ''charset='' \<and> x \<in> set media_types)"
      using sp two by (auto simp: not_valid_content_type_def media_types_def)
    have "media_type_ok ct \<longleftrightarrow> take 8 (strip y) = ''charset='' \<and> x \<in> set media_types"
    proof
      assume "media_type_ok ct"
      then obtain base where b: "base \<in> set media_types"
        and alt: "ct = base \<or> (\<exists>ws rest. ct = base @ '';'' @ ws @ ''charset='' @ rest
              \<and> (\<forall>c \<in> set ws. isspace c) \<and> CHR '';'' \<notin> set rest)"
        unfolding media_type_ok_def by blast
      from alt show "take 8 (strip y) = ''charset='' \<and> x \<in> set media_types"
      proof
        assume "ct = base"
        with c(1) media_types_no_sep [OF b] show ?thesis by auto
      next
        assume "\<exists>ws rest. ct = base @ '';'' @ ws @ ''charset='' @ rest
              \<and> (\<forall>c \<in> set ws. isspace c) \<and> CHR '';'' \<notin> set rest"
        then obtain ws rest where r: "ct = base @ '';'' @ ws @ ''charset='' @ rest"
          "\<forall>c \<in> set ws. isspace c" "CHR '';'' \<notin> set rest"
          by blast
        have "split CHR '';'' ct = [base, ws @ ''charset='' @ rest]"
          unfolding split_two_iff using r media_types_no_sep [OF b] isspace_not_sep
          by auto
        with sp two have "x = base" "y = ws @ ''charset='' @ rest" by simp_all
        with b r(2) show ?thesis
          using strip_charset_iff [of y] by blast
      qed
    next
      assume h: "take 8 (strip y) = ''charset='' \<and> x \<in> set media_types"
      then obtain ws rest where r: "y = ws @ ''charset='' @ rest" "\<forall>c \<in> set ws. isspace c"
        using strip_charset_iff [of y] by blast
      with c(3) have "CHR '';'' \<notin> set rest" by simp
      with r c(1) h show "media_type_ok ct"
        unfolding media_type_ok_def by auto
    qed
    with nv show ?thesis by simp
  next
    case more
    with sp have nv: "not_valid_content_type ct"
      by (simp add: not_valid_content_type_def)
    have "\<not> media_type_ok ct"
    proof
      assume "media_type_ok ct"
      then obtain base where b: "base \<in> set media_types"
        and alt: "ct = base \<or> (\<exists>ws rest. ct = base @ '';'' @ ws @ ''charset='' @ rest
              \<and> (\<forall>c \<in> set ws. isspace c) \<and> CHR '';'' \<notin> set rest)"
        unfolding media_type_ok_def by blast
      from alt show False
      proof
        assume "ct = base"
        then have "split CHR '';'' ct = [base]"
          using media_types_no_sep [OF b] by (simp add: split_no_sep)
        with sp more show False by simp
      next
        assume "\<exists>ws rest. ct = base @ '';'' @ ws @ ''charset='' @ rest
              \<and> (\<forall>c \<in> set ws. isspace c) \<and> CHR '';'' \<notin> set rest"
        then obtain ws rest where r: "ct = base @ '';'' @ ws @ ''charset='' @ rest"
          "\<forall>c \<in> set ws. isspace c" "CHR '';'' \<notin> set rest"
          by blast
        have "split CHR '';'' ct = [base, ws @ ''charset='' @ rest]"
          unfolding split_two_iff using r media_types_no_sep [OF b] isspace_not_sep
          by auto
        with sp more show False by auto
      qed
    qed
    with nv show ?thesis by simp
  qed
qed

subsection \<open>Statuses\<close>

lemma process_call_configured:
  "allowed_origins srv \<noteq> None \<Longrightarrow>
     process_call lib srv env s = (Inl (AttributeError ''allowed_origin''), s)"
  by (simp add: process_call_def get_allowed_origin_def)

lemma status_distinct:
  "HTTP_NOT_ACCEPTABLE \<noteq> HTTP_UNSUPPORTED_MEDIA" "HTTP_BAD_REQUEST \<noteq> HTTP_UNSUPPORTED_MEDIA"
  "HTTP_NO_CONTENT \<noteq> HTTP_UNSUPPORTED_MEDIA" "HTTP_OK \<noteq> HTTP_UNSUPPORTED_MEDIA"
  by (simp_all add: HTTP_NOT_ACCEPTABLE_def HTTP_UNSUPPORTED_MEDIA_def HTTP_BAD_REQUEST_def
        HTTP_NO_CONTENT_def HTTP_OK_def)

lemma error_reply_status:
  "error_reply status hs err s = (Inr (Some (status', hs'), r), s') \<Longrightarrow> status' = status"
  by (auto simp: error_reply_def split: sum.splits)

lemma dispatch_status:
  "dispatch srv hs request ip_addr s = (Inr (Some (status, hs'), r), s') \<Longrightarrow>
     status = HTTP_NO_CONTENT \<or> status = HTTP_OK"
  by (auto simp: dispatch_def split: sum.splits prod.splits if_splits)

lemma process_call_no_post_415:
  assumes "allowed_origins srv = None" and "REQUEST_METHOD env = ''POST''"
    and "CONTENT_TYPE env = Some ct" and "\<not> not_valid_content_type ct"
  shows "process_call lib srv env s \<noteq> (Inr (Some (HTTP_UNSUPPORTED_MEDIA, hs), r), s')"
proof
  assume h: "process_call lib srv env s = (Inr (Some (HTTP_UNSUPPORTED_MEDIA, hs), r), s')"
  show False
  proof (cases "HTTP_ACCEPT env \<noteq> None \<and> not_valid_content_type (the (HTTP_ACCEPT env))")
    case True
    with h assms have "error_reply HTTP_NOT_ACCEPTABLE [(''Content-Type'', ''application/json-rpc'')]
        BAD_ACCEPT s = (Inr (Some (HTTP_UNSUPPORTED_MEDIA, hs), r), s')"
      by (simp add: process_call_def)
    from error_reply_status [OF this] show False using status_distinct by auto
  next
    case False
    show False
    proof (cases "caller_address lib env")
      case (Inl e)
      with h assms False show False by (auto simp: process_call_def)
    next
      case (Inr ip_addr)
      show False
      proof (cases "read_request lib env")
        case (Inl e)
        with h assms False Inr show False
          using status_distinct
          by (auto simp: process_call_def extra_checks_def
                split: if_splits dest!: error_reply_status)
      next
        case req: (Inr request)
        with h assms False Inr
        have "dispatch srv [(''Content-Type'', ''application/json-rpc'')] request ip_addr s
               = (Inr (Some (HTTP_UNSUPPORTED_MEDIA, hs), r), s')"
          by (auto simp: process_call_def extra_checks_def)
        from dispatch_status [OF this] show False using status_distinct by auto
      qed
    qed
  qed
qed

lemma ex_media_types:
  "media_type_ok ''application/json; charset=utf-8''" "\<not> media_type_ok ''text/plain''"
proof -
  have "\<not> not_valid_content_type ''application/json; charset=utf-8''"
    by (simp add: not_valid_content_type_def strip_def isspace_def)
  then show "media_type_ok ''application/json; charset=utf-8''"
    by (simp add: not_valid_content_type_iff)
  have "not_valid_content_type ''text/plain''"
    by (simp add: not_valid_content_type_def)
  then show "\<not> media_type_ok ''text/plain''"
    by (simp add: not_valid_content_type_iff)
qed

section \<open>Envelope validation (C2)\<close>

text \<open>
  C2.  Every candidate request that fails the envelope shape in one of the listed ways
  gets the InvalidRequest envelope, code -32600, with id null, whether or not it carried
  an id; the state is untouched.
\<close>

theorem invalid_envelope_rejected:
  "envelope_violation request \<Longrightarrow>
     process_request srv request ip_addr s =
       (Inr (error_envelope (PInt (- 32600)) (PStr ''Invalid Request'') PNone), s)"
  by (simp add: process_request_def is_valid_request_iff INVALID_REQUEST_def return_error_pair)

theorem invalid_envelope_rejected_witness:
  "envelope_violation ex_no_version
   \<and> process_request ex_server ex_no_version None 0 =
       (Inr (error_envelope (PInt (- 32600)) (PStr ''Invalid Request'') PNone), 0)"
proof -
  have h: "envelope_violation ex_no_version"
    by (simp add: envelope_violation_def ex_no_version_def)
  from h invalid_envelope_rejected [OF h, of ex_server None 0] show ?thesis by simp
qed

section \<open>Notifications (C3)\<close>

text \<open>
  C3.  A structurally valid request without an id never gets a response envelope:
  whatever \<^verbatim>\<open>process_request\<close> returns is None.  In particular it returns None for an
  unknown method, for parameters that do not bind, and after the handler has returned any
  value at all, a result or a (code, message) tuple; in that last case the state is the
  one the handler left, so the handler did run.
\<close>

theorem notification_no_response:
  assumes "is_valid_request (PDict d)"
    and "map_of d ''id'' = None"
    and "map_of d ''method'' = Some (PStr name)"
  shows "(\<forall>r s'. process_request srv (PDict d) ip_addr s = (Inr r, s') \<longrightarrow> r = PNone)
     \<and> (map_of (methods srv) name = None \<longrightarrow>
          process_request srv (PDict d) ip_addr s = (Inr PNone, s))
     \<and> (\<forall>m a. map_of (methods srv) name = Some m \<and> original_func m = Some (Inr a)
            \<and> bind_params a (params_of d) = Inr None \<longrightarrow>
          process_request srv (PDict d) ip_addr s = (Inr PNone, s))
     \<and> (\<forall>m a cargs res s'. map_of (methods srv) name = Some m
            \<and> original_func m = Some (Inr a)
            \<and> bind_params a (params_of d) = Inr (Some cargs)
            \<and> invoke m ip_addr cargs s = (Inr res, s') \<longrightarrow>
          process_request srv (PDict d) ip_addr s = (Inr PNone, s'))"
proof -
  have rid: "req_id_of d = PNone"
    using assms(1,2) by (simp add: valid_req_id)
  note pr = process_request_valid [OF assms(1) assms(3), of srv ip_addr s, unfolded rid]
  have a: "\<forall>r s'. process_request srv (PDict d) ip_addr s = (Inr r, s') \<longrightarrow> r = PNone"
    unfolding pr
    by (auto simp: call_method_notification split: option.splits sum.splits prod.splits)
  have b: "map_of (methods srv) name = None \<longrightarrow>
          process_request srv (PDict d) ip_addr s = (Inr PNone, s)"
    unfolding pr by simp
  have c: "\<forall>m a. map_of (methods srv) name = Some m \<and> original_func m = Some (Inr a)
            \<and> bind_params a (params_of d) = Inr None \<longrightarrow>
          process_request srv (PDict d) ip_addr s = (Inr PNone, s)"
    unfolding pr by simp
  have e: "\<forall>m a cargs res s'. map_of (methods srv) name = Some m
            \<and> original_func m = Some (Inr a)
            \<and> bind_params a (params_of d) = Inr (Some cargs)
            \<and> invoke m ip_addr cargs s = (Inr res, s') \<longrightarrow>
          process_request srv (PDict d) ip_addr s = (Inr PNone, s')"
    unfolding pr by (simp add: call_method_notification)
  from a b c e show ?thesis by blast
qed

theorem notification_no_response_witness:
  "is_valid_request (PDict ex_notification)
   \<and> map_of ex_notification ''id'' = None
   \<and> map_of ex_notification ''method'' = Some (PStr ''add'')
   \<and> invoke add_handler None (Positional [PInt 1, PInt 2]) 0 = (Inr (PInt 3), 1)
   \<and> process_request ex_server (PDict ex_notification) None 0 = (Inr PNone, 1)"
proof -
  have h1: "is_valid_request (PDict ex_notification)" by (rule ex_notification_valid)
  have h2: "map_of ex_notification ''id'' = None" by (simp add: ex_notification_def)
  have h3: "map_of ex_notification ''method'' = Some (PStr ''add'')"
    by (simp add: ex_notification_def)
  have h4: "map_of (methods ex_server) ''add'' = Some add_handler"
    by (simp add: ex_server_def)
  have h5: "original_func add_handler = Some (Inr add_spec)"
    by (simp add: add_handler_def)
  have h6: "bind_params add_spec (params_of ex_notification)
             = Inr (Some (Positional [PInt 1, PInt 2]))"
    by (simp add: bind_params_def params_of_def ex_notification_def invalid_params_list_def
          req_args_of_def add_spec_def)
  have h7: "invoke add_handler None (Positional [PInt 1, PInt 2]) 0 = (Inr (PInt 3), 1)"
    by (simp add: add_handler_def)
  from notification_no_response [OF h1 h2 h3, of ex_server None 0] h4 h5 h6 h7
  have "process_request ex_server (PDict ex_notification) None 0 = (Inr PNone, 1)"
    by blast
  with h1 h2 h3 h7 show ?thesis by blast
qed

section \<open>Positional parameters (C5)\<close>

text \<open>
  C5.  For a valid request with an id whose params is a list, the answer is the
  InvalidParams envelope, code -32602, under the request's id exactly when the list is
  shorter than the required count: the number of declared parameters, minus those with a
  default, minus the two implicit leading ones.  Otherwise the handler is called with the
  list as it is; in particular a list longer than the whole parameter list is not rejected
  here.
\<close>

theorem positional_binding:
  assumes "is_valid_request (PDict d)"
    and "map_of d ''method'' = Some (PStr name)"
    and "map_of d ''id'' = Some req_id"
    and "map_of d ''params'' = Some (PList ps)"
    and "map_of (methods srv) name = Some m"
    and "original_func m = Some (Inr a)"
  shows "process_request srv (PDict d) ip_addr s =
           (if int (length ps) < int (length (args a)) - int (ndefaults a) - 2
            then (Inr (error_envelope (PInt (- 32602)) (PStr ''Invalid params'') req_id), s)
            else call_method m ip_addr (Positional ps) req_id s)
         \<and> (length (args a) < length ps \<longrightarrow>
              process_request srv (PDict d) ip_addr s =
                call_method m ip_addr (Positional ps) req_id s)"
proof -
  have rid: "req_id_of d = req_id" using assms(3) by (simp add: req_id_of_def)
  have nn: "req_id \<noteq> PNone"
    using assms(1,3) valid_req_id [of d] rid by auto
  have par: "params_of d = PList ps" using assms(4) by (simp add: params_of_def)
  have eq: "process_request srv (PDict d) ip_addr s =
           (if int (length ps) < int (length (args a)) - int (ndefaults a) - 2
            then (Inr (error_envelope (PInt (- 32602)) (PStr ''Invalid params'') req_id), s)
            else call_method m ip_addr (Positional ps) req_id s)"
    using nn
    by (simp add: process_request_valid [OF assms(1,2)] assms(5,6) rid par bind_params_def
          invalid_params_list_def req_args_of_alt)
  then show ?thesis by auto
qed

theorem positional_binding_witness:
  "process_request ex_server (PDict (ex_call ''add'' (PList [PInt 1]))) None 0
     = (Inr (error_envelope (PInt (- 32602)) (PStr ''Invalid params'') (PInt 1)), 0)
   \<and> process_request ex_server (PDict (ex_call ''add'' (PList [PInt 2, PInt 3]))) None 0
     = (Inr (success_envelope (PInt 5) (PInt 1)), 1)
   \<and> process_request ex_server
        (PDict (ex_call ''add'' (PList [PInt 1, PInt 2, PInt 3, PInt 4, PInt 5]))) None 0
     = (Inl (TypeError ''add() takes 4 positional arguments''), 0)"
proof -
  have v: "\<And>ps. is_valid_request (PDict (ex_call ''add'' (PList ps)))"
    by (simp add: ex_call_valid)
  have i: "\<And>ps. map_of (ex_call ''add'' (PList ps)) ''id'' = Some (PInt 1)"
    by (simp add: ex_call_def)
  have p: "\<And>ps. map_of (ex_call ''add'' (PList ps)) ''params'' = Some (PList ps)"
    by (simp add: ex_call_def)
  have f: "map_of (methods ex_server) ''add'' = Some add_handler"
    by (simp add: ex_server_def)
  have o: "original_func add_handler = Some (Inr add_spec)"
    by (simp add: add_handler_def)
  note th = positional_binding [OF v ex_call_method i p f o, of _ None 0]
  have a: "process_request ex_server (PDict (ex_call ''add'' (PList [PInt 1]))) None 0
     = (Inr (error_envelope (PInt (- 32602)) (PStr ''Invalid params'') (PInt 1)), 0)"
    using th [of "[PInt 1]"] by (simp add: add_spec_def ndefaults_def)
  have b: "process_request ex_server (PDict (ex_call ''add'' (PList [PInt 2, PInt 3]))) None 0
     = (Inr (success_envelope (PInt 5) (PInt 1)), 1)"
    using th [of "[PInt 2, PInt 3]"]
    by (simp add: add_spec_def ndefaults_def call_method_def add_handler_def respond_def
          return_result_success)
  have c: "process_request ex_server
        (PDict (ex_call ''add'' (PList [PInt 1, PInt 2, PInt 3, PInt 4, PInt 5]))) None 0
     = (Inl (TypeError ''add() takes 4 positional arguments''), 0)"
    using th [of "[PInt 1, PInt 2, PInt 3, PInt 4, PInt 5]"]
    by (simp add: add_spec_def ndefaults_def call_method_def add_handler_def)
  from a b c show ?thesis by blast
qed

section \<open>Named parameters (C6)\<close>



section \<open>The handler's return value (C7)\<close>

text \<open>
  C7, as stated, says that exactly the two-element pairs become error envelopes.  The
  program tests the type of the value, not its length: a tuple of three elements is
  answered with an error envelope made of its first two, not with a success envelope
  carrying the tuple.
\<close>

theorem tuple_of_three_counterexample:
  "invoke triple_handler None (Positional []) 0
     = (Inr (PTuple [PInt 7, PStr ''boom'', PInt 9]), 1)
   \<and> length [PInt 7, PStr ''boom'', PInt 9] \<noteq> 2
   \<and> process_request ex_server (PDict (ex_call ''triple'' (PList []))) None 0
       = (Inr (error_envelope (PInt 7) (PStr ''boom'') (PInt 1)), 1)
   \<and> process_request ex_server (PDict (ex_call ''triple'' (PList []))) None 0
       \<noteq> (Inr (success_envelope (PTuple [PInt 7, PStr ''boom'', PInt 9]) (PInt 1)), 1)"
  by (simp add: ex_triple_run triple_handler_def error_envelope_def success_envelope_def)

text \<open>
  C7, amended.  For a request with an id that is dispatched to its handler: when the
  handler returns a tuple of at least two elements, the response is the error envelope
  carrying its first two elements as code and message under the request's id; when it
  returns a value that is not a tuple, the response is the success envelope carrying that
  value as result under the request's id.  Every envelope returned has exactly one of
  the keys result and error.
\<close>

theorem handler_return_interpreted:
  assumes "is_valid_request (PDict d)"
    and "map_of d ''method'' = Some (PStr name)"
    and "map_of d ''id'' = Some req_id"
    and "map_of (methods srv) name = Some m"
    and "original_func m = Some (Inr a)"
    and "bind_params a (params_of d) = Inr (Some cargs)"
    and "invoke m ip_addr cargs s = (Inr res, s')"
  shows "(\<forall>c msg rest. res = PTuple (c # msg # rest) \<longrightarrow>
            process_request srv (PDict d) ip_addr s = (Inr (error_envelope c msg req_id), s'))
       \<and> (type_of res \<noteq> TTuple \<longrightarrow>
            process_request srv (PDict d) ip_addr s = (Inr (success_envelope res req_id), s'))
       \<and> (\<forall>env. fst (process_request srv (PDict d) ip_addr s) = Inr env \<longrightarrow>
            has_key env ''result'' \<noteq> has_key env ''error'')"
proof -
  have rid: "req_id_of d = req_id" using assms(3) by (simp add: req_id_of_def)
  have nn: "req_id \<noteq> PNone"
    using assms(1,3) valid_req_id [of d] rid by auto
  have pr: "process_request srv (PDict d) ip_addr s = (respond res req_id, s')"
    by (simp add: process_request_valid [OF assms(1,2)] assms(4,5,6,7) rid call_method_def)
  show ?thesis
    unfolding pr using nn respond_one_of [of res req_id]
    by (auto simp: respond_cases)
qed

theorem handler_return_interpreted_witness:
  "invoke fail_handler None (Positional []) 0 = (Inr (PTuple [PInt 7, PStr ''boom'']), 1)
   \<and> process_request ex_server (PDict (ex_call ''fail'' (PList []))) None 0
       = (Inr (error_envelope (PInt 7) (PStr ''boom'') (PInt 1)), 1)
   \<and> has_key (error_envelope (PInt 7) (PStr ''boom'') (PInt 1)) ''result''
       \<noteq> has_key (error_envelope (PInt 7) (PStr ''boom'') (PInt 1)) ''error''"
proof -
  have v: "is_valid_request (PDict (ex_call ''fail'' (PList [])))"
    by (simp add: ex_call_valid)
  have i: "map_of (ex_call ''fail'' (PList [])) ''id'' = Some (PInt 1)"
    by (simp add: ex_call_def)
  have f: "map_of (methods ex_server) ''fail'' = Some fail_handler"
    by (simp add: ex_server_def)
  have o: "original_func fail_handler = Some (Inr plain_spec)"
    by (simp add: fail_handler_def)
  have b: "bind_params plain_spec (params_of (ex_call ''fail'' (PList [])))
             = Inr (Some (Positional []))"
    by (simp add: ex_call_fields bind_params_def invalid_params_list_def req_args_of_def
          plain_spec_def)
  have r: "invoke fail_handler None (Positional []) 0
             = (Inr (PTuple [PInt 7, PStr ''boom'']), 1)"
    by (simp add: fail_handler_def)
  note th = handler_return_interpreted [OF v ex_call_method i f o b r]
  from th have a: "process_request ex_server (PDict (ex_call ''fail'' (PList []))) None 0
       = (Inr (error_envelope (PInt 7) (PStr ''boom'') (PInt 1)), 1)"
    by blast
  from th a have c: "has_key (error_envelope (PInt 7) (PStr ''boom'') (PInt 1)) ''result''
       \<noteq> has_key (error_envelope (PInt 7) (PStr ''boom'') (PInt 1)) ''error''"
    by simp
  from r a c show ?thesis by blast
qed

section \<open>Handlers without \<^verbatim>\<open>original_func\<close> (C10)\<close>

text \<open>
  C10.  The constructor accepts a methods dictionary whatever the \<^verbatim>\<open>original_func\<close>
  attributes of its values: a dictionary it accepts is still accepted with the attribute
  removed everywhere.  And for a server it has built, every valid request that names a
  registered handler without the attribute ends in an uncaught AttributeError, with no
  response value and the state untouched.
\<close>

theorem missing_original_func_raises:
  assumes "init (MethodsDict kms) allowed = Inr srv"
    and "map_of (methods srv) name = Some m"
    and "original_func m = None"
    and "is_valid_request (PDict d)"
    and "map_of d ''method'' = Some (PStr name)"
  shows "process_request srv (PDict d) ip_addr s = (Inl (AttributeError ''original_func''), s)
       \<and> (\<exists>srv'. init (MethodsDict (strip_original_func kms)) allowed = Inr srv')"
  using init_strip [OF assms(1)]
  by (simp add: process_request_valid [OF assms(4,5)] assms(2,3))

theorem missing_original_func_raises_witness:
  "init ex_methods None = Inr ex_server
   \<and> map_of (methods ex_server) ''bare'' = Some bare_handler
   \<and> original_func bare_handler = None
   \<and> is_valid_request (PDict (ex_call ''bare'' (PList [PInt 1, PInt 2])))
   \<and> process_request ex_server (PDict (ex_call ''bare'' (PList [PInt 1, PInt 2]))) None 0
       = (Inl (AttributeError ''original_func''), 0)"
proof -
  have v: "is_valid_request (PDict (ex_call ''bare'' (PList [PInt 1, PInt 2])))"
    by (simp add: ex_call_valid)
  have f: "map_of (methods ex_server) ''bare'' = Some bare_handler"
    by (simp add: ex_server_def)
  have o: "original_func bare_handler = None"
    by (simp add: bare_handler_def)
  from missing_original_func_raises [OF init_ex [unfolded ex_methods_def] f o v ex_call_method]
    init_ex f o v
  show ?thesis by blast
qed

section \<open>The allowed-origins header (C1)\<close>

text \<open>
  C1 says that a server constructed with an allowed-origins configuration answers every
  call normally, with an Access-Control-Allow-Origin header.  The program stores the
  configuration as \<^verbatim>\<open>allowed_origins\<close> and reads \<^verbatim>\<open>allowed_origin\<close>: the call below, a
  POST of the empty batch to a server configured with \<^verbatim>\<open>"*"\<close>, ends in an uncaught
  AttributeError before anything is emitted.
\<close>

theorem cors_header_raises:
  "allowed_origins cors_server = Some (PStr ''*'')
   \<and> process_call ex_lib cors_server (json_post [0x5B, 0x5D]) 0
        = (Inl (AttributeError ''allowed_origin''), 0)"
  by (simp add: process_call_def cors_server_def get_allowed_origin_def)

section \<open>Undecodable bodies (C9)\<close>




section \<open>Batches (C4)\<close>

text \<open>
  C4.  \<^verbatim>\<open>process_request_list\<close> processes the requests in order, each from the state the
  previous one left, and returns exactly the responses that are not None, in their
  original order, or None when there is none.  For a POST call that reaches dispatch with a
  list as body (on a server without allowed-origins configuration, see C1), None is
  emitted as status 204 with no headers and an empty body, and a list of responses, which
  is never empty, as status 200 with its encoding as body.
\<close>

theorem batch_responses:
  "process_request_list srv reqs ip_addr s =
     (case run_each srv reqs ip_addr s of
        (Inl e, s') \<Rightarrow> (Inl e, s')
      | (Inr outs, s') \<Rightarrow>
          (if responses outs = [] then Inr PNone else Inr (PList (responses outs)), s'))
   \<and> (allowed_origins srv = None \<and> passes_checks lib env ip_addr
        \<and> read_request lib env = Inr (PList reqs) \<longrightarrow>
        (\<forall>s'. process_request_list srv reqs ip_addr s = (Inr PNone, s') \<longrightarrow>
           call lib srv env s = (Inr (Some (''204 No Content'', []), [[]]), s'))
        \<and> (\<forall>rs s' body. process_request_list srv reqs ip_addr s = (Inr (PList rs), s')
              \<and> json_dumps_encode lib (PList rs) = Inr body \<longrightarrow>
           rs \<noteq> []
           \<and> call lib srv env s =
               (Inr (Some (''200 OK'', [(''Content-Type'', ''application/json-rpc'')]), [body]),
                s')))"
proof -
  note a = process_request_list_run_each [of srv reqs ip_addr s]
  have b: "allowed_origins srv = None \<and> passes_checks lib env ip_addr
        \<and> read_request lib env = Inr (PList reqs) \<longrightarrow>
        (\<forall>s'. process_request_list srv reqs ip_addr s = (Inr PNone, s') \<longrightarrow>
           call lib srv env s = (Inr (Some (''204 No Content'', []), [[]]), s'))"
    by (auto simp: call_def process_call_passed dispatch_def HTTP_NO_CONTENT_def)
  have c: "allowed_origins srv = None \<and> passes_checks lib env ip_addr
        \<and> read_request lib env = Inr (PList reqs) \<longrightarrow>
        (\<forall>rs s' body. process_request_list srv reqs ip_addr s = (Inr (PList rs), s')
              \<and> json_dumps_encode lib (PList rs) = Inr body \<longrightarrow>
           call lib srv env s =
               (Inr (Some (''200 OK'', [(''Content-Type'', ''application/json-rpc'')]), [body]),
                s'))"
    by (auto simp: call_def process_call_passed dispatch_def HTTP_OK_def)
  have d: "\<forall>rs s'. process_request_list srv reqs ip_addr s = (Inr (PList rs), s') \<longrightarrow> rs \<noteq> []"
    unfolding a by (auto split: prod.splits sum.splits if_splits)
  from a b c d show ?thesis by blast
qed

theorem batch_responses_witness:
  "process_request_list ex_server
      [PDict (ex_call ''add'' (PList [PInt 1, PInt 1])), PDict ex_notification] None 0
     = (Inr (PList [success_envelope (PInt 2) (PInt 1)]), 2)
   \<and> process_request_list ex_server [PDict ex_notification, PDict ex_notification] None 0
     = (Inr PNone, 2)
   \<and> call ex_lib ex_server (json_post [0x5B, 0x5D]) 0
     = (Inr (Some (''204 No Content'', []), [[]]), 0)
   \<and> call ex_lib ex_server (json_post [0x5B, 0x31, 0x5D]) 0
     = (Inr (Some (''200 OK'', [(''Content-Type'', ''application/json-rpc'')]), [[]]), 0)"
proof -
  have a: "allowed_origins ex_server = None" by (simp add: ex_server_def)
  have b1: "process_request_list ex_server
      [PDict (ex_call ''add'' (PList [PInt 1, PInt 1])), PDict ex_notification] None 0
     = (Inr (PList [success_envelope (PInt 2) (PInt 1)]), 2)"
    using batch_responses [of ex_server
      "[PDict (ex_call ''add'' (PList [PInt 1, PInt 1])), PDict ex_notification]" None 0]
    by (simp add: ex_add_run ex_notification_run responses_def success_envelope_def)
  have b2: "process_request_list ex_server [PDict ex_notification, PDict ex_notification] None 0
     = (Inr PNone, 2)"
    using batch_responses [of ex_server "[PDict ex_notification, PDict ex_notification]" None 0]
    by (simp add: ex_notification_run responses_def)
  have l0: "process_request_list ex_server [] (Some [127, 0, 0, 1]) 0 = (Inr PNone, 0)"
    by (simp add: process_request_list_def)
  have l1: "process_request_list ex_server [PInt 1] (Some [127, 0, 0, 1]) 0
     = (Inr (PList [error_envelope (PInt (- 32600)) (PStr ''Invalid Request'') PNone]), 0)"
    by (simp add: process_request_list_def process_request_def is_valid_request_def
          INVALID_REQUEST_def return_error_pair error_envelope_def)
  have d: "json_dumps_encode ex_lib
             (PList [error_envelope (PInt (- 32600)) (PStr ''Invalid Request'') PNone]) = Inr []"
    by (simp add: ex_lib_def)
  have c1: "call ex_lib ex_server (json_post [0x5B, 0x5D]) 0
     = (Inr (Some (''204 No Content'', []), [[]]), 0)"
    using batch_responses [of ex_server "[]" "Some [127, 0, 0, 1]" 0 ex_lib
        "json_post [0x5B, 0x5D]"]
      a json_post_passes ex_read_empty l0
    by blast
  have c2: "call ex_lib ex_server (json_post [0x5B, 0x31, 0x5D]) 0
     = (Inr (Some (''200 OK'', [(''Content-Type'', ''application/json-rpc'')]), [[]]), 0)"
    using batch_responses [of ex_server "[PInt 1]" "Some [127, 0, 0, 1]" 0 ex_lib
        "json_post [0x5B, 0x31, 0x5D]"]
      a json_post_passes ex_read_one l1 d
    by blast
  from b1 b2 c1 c2 show ?thesis by blast
qed

section \<open>The Content-Type header (C8)\<close>

text \<open>
  C8 says that every POST call with an absent or unacceptable Content-Type header is
  answered with status 415.  On a server constructed with an allowed-origins configuration
  the check of line 217 is never reached: line 197 reads \<^verbatim>\<open>allowed_origin\<close>, the slip of
  C1, and the POST below, with Content-Type "text/plain", ends in an uncaught
  AttributeError instead of status 415.
\<close>

theorem content_type_check_unreached:
  "allowed_origins cors_server = Some (PStr ''*'')
   \<and> REQUEST_METHOD (ex_post (Some ''text/plain'') [0x5B, 0x5D]) = ''POST''
   \<and> CONTENT_TYPE (ex_post (Some ''text/plain'') [0x5B, 0x5D]) = Some ''text/plain''
   \<and> not_valid_content_type ''text/plain''
   \<and> process_call ex_lib cors_server (ex_post (Some ''text/plain'') [0x5B, 0x5D]) 0
        = (Inl (AttributeError ''allowed_origin''), 0)"
  by (simp add: process_call_def cors_server_def get_allowed_origin_def ex_post_def
        not_valid_content_type_def)

text \<open>
  The check itself is as the specification describes it.  For a POST call on a server
  without allowed-origins configuration: when the Content-Type header is absent or is not
  one of the three base media types optionally followed by a single \<open>charset=\<close>
  parameter, the call is answered with status 415 and the BadContentType envelope, code 1,
  with id null; when the header has that form the call is not answered with status 415.
  "application/json; charset=utf-8" has the form and "text/plain" does not.
\<close>

lemma content_type_enforced:
  assumes "allowed_origins srv = None" and "REQUEST_METHOD env = ''POST''"
  shows "((case CONTENT_TYPE env of None \<Rightarrow> True | Some ct \<Rightarrow> \<not> media_type_ok ct) \<longrightarrow>
            process_call lib srv env s =
              (Inr (Some (''415 Unsupported Media Type'',
                          [(''Content-Type'', ''application/json-rpc'')]),
                    error_envelope (PInt 1) (PStr ''Bad or missing Content-Type header'') PNone),
               s))
       \<and> ((case CONTENT_TYPE env of None \<Rightarrow> False | Some ct \<Rightarrow> media_type_ok ct) \<longrightarrow>
            (\<forall>hs r s'. process_call lib srv env s
                         \<noteq> (Inr (Some (''415 Unsupported Media Type'', hs), r), s')))
       \<and> media_type_ok ''application/json; charset=utf-8''
       \<and> \<not> media_type_ok ''text/plain''"
proof -
  have a: "(case CONTENT_TYPE env of None \<Rightarrow> True | Some ct \<Rightarrow> \<not> media_type_ok ct) \<longrightarrow>
            process_call lib srv env s =
              (Inr (Some (''415 Unsupported Media Type'',
                          [(''Content-Type'', ''application/json-rpc'')]),
                    error_envelope (PInt 1) (PStr ''Bad or missing Content-Type header'') PNone),
               s)"
    using assms
    by (auto simp: process_call_def not_valid_content_type_iff BAD_CONTENT_TYPE_def
          error_reply_pair HTTP_UNSUPPORTED_MEDIA_def split: option.splits)
  have b: "(case CONTENT_TYPE env of None \<Rightarrow> False | Some ct \<Rightarrow> media_type_ok ct) \<longrightarrow>
            (\<forall>hs r s'. process_call lib srv env s
                         \<noteq> (Inr (Some (''415 Unsupported Media Type'', hs), r), s'))"
    using process_call_no_post_415 [OF assms, of _ lib s]
    by (auto simp: not_valid_content_type_iff HTTP_UNSUPPORTED_MEDIA_def split: option.splits)
  from a b ex_media_types show ?thesis by blast
qed

lemma content_type_enforced_example:
  "process_call ex_lib ex_server (ex_post (Some ''text/plain'') [0x5B, 0x5D]) 0 =
     (Inr (Some (''415 Unsupported Media Type'', [(''Content-Type'', ''application/json-rpc'')]),
           error_envelope (PInt 1) (PStr ''Bad or missing Content-Type header'') PNone), 0)
   \<and> process_call ex_lib ex_server (ex_post None [0x5B, 0x5D]) 0 =
     (Inr (Some (''415 Unsupported Media Type'', [(''Content-Type'', ''application/json-rpc'')]),
           error_envelope (PInt 1) (PStr ''Bad or missing Content-Type header'') PNone), 0)
   \<and> process_call ex_lib ex_server
        (ex_post (Some ''application/json; charset=utf-8'') [0x5B, 0x5D]) 0
       \<noteq> (Inr (Some (''415 Unsupported Media Type'',
                       [(''Content-Type'', ''application/json-rpc'')]),
             error_envelope (PInt 1) (PStr ''Bad or missing Content-Type header'') PNone), 0)"
proof -
  have a: "allowed_origins ex_server = None" by (simp add: ex_server_def)
  have p: "\<And>ct body. REQUEST_METHOD (ex_post ct body) = ''POST''"
    by (simp add: ex_post_def)
  have c: "\<And>ct body. CONTENT_TYPE (ex_post ct body) = ct"
    by (simp add: ex_post_def)
  note th = content_type_enforced [OF a p, of _ _ ex_lib 0, unfolded c]
  from th [of "Some ''text/plain''" "[0x5B, 0x5D]"]
  have 1: "process_call ex_lib ex_server (ex_post (Some ''text/plain'') [0x5B, 0x5D]) 0 =
     (Inr (Some (''415 Unsupported Media Type'', [(''Content-Type'', ''application/json-rpc'')]),
           error_envelope (PInt 1) (PStr ''Bad or missing Content-Type header'') PNone), 0)"
    by simp
  from th [of None "[0x5B, 0x5D]"]
  have 2: "process_call ex_lib ex_server (ex_post None [0x5B, 0x5D]) 0 =
     (Inr (Some (''415 Unsupported Media Type'', [(''Content-Type'', ''application/json-rpc'')]),
           error_envelope (PInt 1) (PStr ''Bad or missing Content-Type header'') PNone), 0)"
    by simp
  from th [of "Some ''application/json; charset=utf-8''" "[0x5B, 0x5D]"]
  have 3: "process_call ex_lib ex_server
        (ex_post (Some ''application/json; charset=utf-8'') [0x5B, 0x5D]) 0
       \<noteq> (Inr (Some (''415 Unsupported Media Type'',
                       [(''Content-Type'', ''application/json-rpc'')]),
             error_envelope (PInt 1) (PStr ''Bad or missing Content-Type header'') PNone), 0)"
    by simp
  from 1 2 3 show ?thesis by blast
qed

end
